theory Spec2Isabelle
  imports Main
begin

section \<open>JavaScript values\<close>

text \<open>
  The middleware works on dynamically typed objects, so the embedding carries a small
  universe of JavaScript values. An object is the list of its own properties in
  insertion order; every property has a key, an \<open>enumerable\<close> flag and a value. On an
  \<open>Error\<close> instance \<open>message\<close> and \<open>stack\<close> are own, non-enumerable properties;
  properties added by assignment are enumerable. Numbers are the integers (no fractions,
  no NaN, no infinities); the keys of an object are assumed not to be array indices, so
  that insertion order is enumeration order.
\<close>

datatype jsval =
    Undefined
  | Null
  | Bool bool
  | Num int
  | Str string
  | Arr "jsval list"
  | Obj "(string \<times> bool \<times> jsval) list"

type_synonym js_object = "(string \<times> bool \<times> jsval) list"

datatype js_exn =
    TypeError string
  | Error string
  | SyntaxError string
  | SystemError string string

text \<open>\<open>error.message\<close> and \<open>error.code\<close> of a caught exception.\<close>

fun exn_message :: "js_exn \<Rightarrow> string" where
  "exn_message (TypeError m) = m"
| "exn_message (Error m) = m"
| "exn_message (SyntaxError m) = m"
| "exn_message (SystemError c m) = m"

fun exn_code :: "js_exn \<Rightarrow> jsval" where
  "exn_code (SystemError c m) = Str c"
| "exn_code ex = Undefined"

text \<open>\<open>obj[key]\<close> on own properties; a key that is not there reads \<open>undefined\<close>.\<close>

definition js_get :: "js_object \<Rightarrow> string \<Rightarrow> jsval" where
  "js_get ps k = (case map_of ps k of Some (e, v) \<Rightarrow> v | None \<Rightarrow> Undefined)"

text \<open>
  The same read on an \<open>Error\<close> instance: \<open>name\<close> and \<open>message\<close> that are not own
  properties come from \<open>Error.prototype\<close>. A \<open>name\<close> that the class of the error
  puts on its own prototype is listed with the own properties, as a non-enumerable one.
\<close>

definition get_err :: "js_object \<Rightarrow> string \<Rightarrow> jsval" where
  "get_err ps k =
     (case map_of ps k of
        Some (e, v) \<Rightarrow> v
      | None \<Rightarrow>
          if k = ''name'' then Str ''Error''
          else if k = ''message'' then Str ''''
          else Undefined)"

text \<open>
  \<open>obj[key] = v\<close>: an existing property keeps its place and its flag, a new one is
  appended and is enumerable.
\<close>

fun assign :: "js_object \<Rightarrow> string \<Rightarrow> jsval \<Rightarrow> js_object" where
  "assign [] k v = [(k, True, v)]"
| "assign ((k', e, v') # ps) k v =
     (if k' = k then (k', e, v) # ps else (k', e, v') # assign ps k v)"

text \<open>\<open>{ ...obj }\<close>: the own enumerable properties, in order.\<close>

definition spread :: "js_object \<Rightarrow> js_object" where
  "spread ps = filter (\<lambda>(k, e, v). e) ps"

fun truthy :: "jsval \<Rightarrow> bool" where
  "truthy Undefined = False"
| "truthy Null = False"
| "truthy (Bool b) = b"
| "truthy (Num n) = (n \<noteq> 0)"
| "truthy (Str s) = (s \<noteq> [])"
| "truthy (Arr vs) = True"
| "truthy (Obj ps) = True"

text \<open>\<open>a || b\<close>\<close>

definition js_or :: "jsval \<Rightarrow> jsval \<Rightarrow> jsval" where
  "js_or a b = (if truthy a then a else b)"

fun string_of_nat :: "nat \<Rightarrow> string" where
  "string_of_nat n =
     (if n < 10 then [''0123456789'' ! n]
      else string_of_nat (n div 10) @ [''0123456789'' ! (n mod 10)])"

definition string_of_int :: "int \<Rightarrow> string" where
  "string_of_int i =
     (if i < 0 then CHR ''-'' # string_of_nat (nat (- i)) else string_of_nat (nat i))"

fun join_strings :: "string \<Rightarrow> string list \<Rightarrow> string" where
  "join_strings sep [] = []"
| "join_strings sep [s] = s"
| "join_strings sep (s # t # ts) = s @ sep @ join_strings sep (t # ts)"

text \<open>
  \<open>ToString\<close>, as a template literal and \<open>Array.prototype.join\<close> apply it; an object
  prints as \<open>Object.prototype.toString\<close> prints it, an array as its elements joined by
  commas.
\<close>

fun to_string :: "jsval \<Rightarrow> string" where
  "to_string Undefined = ''undefined''"
| "to_string Null = ''null''"
| "to_string (Bool b) = (if b then ''true'' else ''false'')"
| "to_string (Num n) = string_of_int n"
| "to_string (Str s) = s"
| "to_string (Arr vs) =
     join_strings '','' (map (\<lambda>v. if v = Undefined \<or> v = Null then [] else to_string v) vs)"
| "to_string (Obj ps) = ''[object Object]''"

definition startsWith :: "string \<Rightarrow> string \<Rightarrow> bool" where
  "startsWith s p = (take (length p) s = p)"

text \<open>\<open>Object.values(v)\<close>; it throws on \<open>undefined\<close> and \<open>null\<close>.\<close>

fun object_values :: "jsval \<Rightarrow> js_exn + jsval list" where
  "object_values Undefined = Inl (TypeError ''Cannot convert undefined or null to object'')"
| "object_values Null = Inl (TypeError ''Cannot convert undefined or null to object'')"
| "object_values (Bool b) = Inr []"
| "object_values (Num n) = Inr []"
| "object_values (Str s) = Inr (map (\<lambda>c. Str [c]) s)"
| "object_values (Arr vs) = Inr vs"
| "object_values (Obj ps) = Inr (map (\<lambda>(k, e, v). v) (spread ps))"

text \<open>
  \<open>v.key\<close> on any value, for the keys this program reads (\<open>message\<close>,
  \<open>statusCode\<close>): reading a property of \<open>undefined\<close> or \<open>null\<close> throws, and the
  primitive values and arrays have no such property.
\<close>

fun member :: "jsval \<Rightarrow> string \<Rightarrow> js_exn + jsval" where
  "member Undefined k = Inl (TypeError ''Cannot read properties of undefined'')"
| "member Null k = Inl (TypeError ''Cannot read properties of null'')"
| "member (Obj ps) k = Inr (js_get ps k)"
| "member v k = Inr Undefined"

text \<open>\<open>xs.map(f)\<close> for an \<open>f\<close> that may throw: the first exception ends the loop.\<close>

fun map_throwing :: "('a \<Rightarrow> js_exn + 'b) \<Rightarrow> 'a list \<Rightarrow> js_exn + 'b list" where
  "map_throwing f [] = Inr []"
| "map_throwing f (x # xs) =
     (case f x of
        Inl ex \<Rightarrow> Inl ex
      | Inr y \<Rightarrow> (case map_throwing f xs of Inl ex \<Rightarrow> Inl ex | Inr ys \<Rightarrow> Inr (y # ys)))"

text \<open>\<open>xs.join(sep)\<close>: \<open>undefined\<close> and \<open>null\<close> elements print as the empty string.\<close>

definition join :: "string \<Rightarrow> jsval list \<Rightarrow> string" where
  "join sep vs =
     join_strings sep (map (\<lambda>v. if v = Undefined \<or> v = Null then [] else to_string v) vs)"

section \<open>middleware/errorHandler.js\<close>

text \<open>
  What the handler reads from its runtime: the build-mode flag \<open>process.env.NODE_ENV\<close>
  and, for an \<open>AppError\<close> constructed at a given line of the file with a given message,
  the text that \<open>Error.captureStackTrace\<close> stores in \<open>stack\<close>.
\<close>

record runtime =
  NODE_ENV :: "string option"
  captureStackTrace :: "nat \<Rightarrow> string \<Rightarrow> string"

text \<open>
  \<open>new AppError(message, statusCode, isOperational = true)\<close>, lines 11 to 25. An omitted
  third argument is \<open>Undefined\<close>. \<open>trace\<close> is the captured stack text.
\<close>

definition AppError :: "string \<Rightarrow> jsval \<Rightarrow> jsval \<Rightarrow> string \<Rightarrow> js_object" where
  "AppError message statusCode isOperational trace =
     [(''message'', False, Str message),
      (''stack'', False, Str trace),
      (''statusCode'', True, statusCode),
      (''isOperational'', True, (if isOperational = Undefined then Bool True else isOperational)),
      (''status'', True,
         Str (if startsWith (to_string statusCode) ''4'' then ''fail'' else ''error''))]"

definition new_AppError :: "runtime \<Rightarrow> nat \<Rightarrow> string \<Rightarrow> jsval \<Rightarrow> js_object" where
  "new_AppError rt line message statusCode =
     AppError message statusCode Undefined (captureStackTrace rt line message)"

text \<open>
  Line 58: \<open>Object.values(err.errors).map(val => val.message).join(', ')\<close>.
\<close>

definition validation_message :: "jsval \<Rightarrow> js_exn + string" where
  "validation_message errors =
     (case object_values errors of
        Inl ex \<Rightarrow> Inl ex
      | Inr vals \<Rightarrow>
          (case map_throwing (\<lambda>val. member val ''message'') vals of
             Inl ex \<Rightarrow> Inl ex
           | Inr ms \<Rightarrow> Inr (join '', '' ms)))"

text \<open>Lines 37 and 38: the handler writes its defaults into the failure it was given.\<close>

definition set_defaults :: "js_object \<Rightarrow> js_object" where
  "set_defaults err0 =
     (let err1 = assign err0 ''statusCode'' (js_or (get_err err0 ''statusCode'') (Num 500))
      in assign err1 ''message'' (js_or (get_err err1 ''message'') (Str ''Internal Server Error'')))"

text \<open>Lines 40 to 44: \<open>let error = { ...err }\<close> and the two copied properties.\<close>

definition copy_error :: "js_object \<Rightarrow> js_object" where
  "copy_error err =
     (let error = spread err;
          error = assign error ''message'' (get_err err ''message'')
      in assign error ''statusCode'' (get_err err ''statusCode''))"

text \<open>
  Lines 47 to 71: five independent \<open>if\<close> statements, each replacing \<open>error\<close>. The third
  one can throw while it builds its message.
\<close>

definition classify :: "runtime \<Rightarrow> js_object \<Rightarrow> js_object \<Rightarrow> js_exn + js_object" where
  "classify rt err error0 =
     (let error1 = (if get_err err ''name'' = Str ''CastError''
                    then new_AppError rt 49 ''Invalid ID format'' (Num 400) else error0);
          error2 = (if get_err err ''code'' = Num 11000
                    then new_AppError rt 54 ''Duplicate field value entered'' (Num 400) else error1)
      in case (if get_err err ''name'' = Str ''ValidationError''
               then (case validation_message (get_err err ''errors'') of
                       Inl ex \<Rightarrow> Inl ex
                     | Inr message \<Rightarrow> Inr (new_AppError rt 59 message (Num 400)))
               else Inr error2) of
           Inl ex \<Rightarrow> Inl ex
         | Inr error3 \<Rightarrow>
             (let error4 = (if get_err err ''name'' = Str ''JsonWebTokenError''
                            then new_AppError rt 65 ''Invalid token'' (Num 401) else error3);
                  error5 = (if get_err err ''name'' = Str ''TokenExpiredError''
                            then new_AppError rt 70 ''Token expired'' (Num 401) else error4)
              in Inr error5))"

text \<open>\<open>res.status(code).json(body)\<close>: the one response a middleware writes.\<close>

record response =
  status_code :: jsval
  json :: js_object

text \<open>
  The handler's effects: the failure record as the handler leaves it, the console, and
  either the exception the handler throws or the response it writes.
\<close>

record handled =
  failure_after :: js_object
  console_after :: "jsval list list"
  written :: "js_exn + response"

definition development :: "runtime \<Rightarrow> bool" where
  "development rt = (NODE_ENV rt = Some ''development'')"

definition errorHandler :: "runtime \<Rightarrow> jsval list list \<Rightarrow> js_object \<Rightarrow> handled" where
  "errorHandler rt console err0 =
     (let err = set_defaults err0
      in case classify rt err (copy_error err) of
           Inl ex \<Rightarrow> \<lparr>failure_after = err, console_after = console, written = Inl ex\<rparr>
         | Inr error \<Rightarrow>
             \<lparr>failure_after = err,
              console_after =
                (if development rt then console @ [[Str ''Error:'', Obj err]] else console),
              written = Inr
                \<lparr>status_code = js_get error ''statusCode'',
                 json =
                   [(''status'', True, js_get error ''status''),
                    (''error'', True, Obj error),
                    (''message'', True, js_get error ''message''),
                    (''stack'', True,
                       (if development rt then js_get error ''stack'' else Obj []))]\<rparr>\<rparr>)"

text \<open>
  The parts of a written response the specification names: \<open>statusCode\<close>, \<open>status\<close>
  and \<open>message\<close> (\<open>reply\<close>), \<open>errorDetail\<close> (the \<open>error\<close> entry of the body) and
  \<open>stackTrace\<close> (its \<open>stack\<close> entry).
\<close>

definition reply :: "handled \<Rightarrow> (jsval \<times> jsval \<times> jsval) option" where
  "reply h =
     (case written h of
        Inl ex \<Rightarrow> None
      | Inr r \<Rightarrow> Some (status_code r, js_get (json r) ''status'', js_get (json r) ''message''))"

definition errorDetail :: "response \<Rightarrow> jsval" where
  "errorDetail r = js_get (json r) ''error''"

definition stackTrace :: "response \<Rightarrow> jsval" where
  "stackTrace r = js_get (json r) ''stack''"

text \<open>\<open>Object.keys(obj)\<close>: the keys \<open>JSON.stringify\<close> can print.\<close>

definition keys :: "js_object \<Rightarrow> string list" where
  "keys ps = map fst (spread ps)"

text \<open>
  What \<open>JSON.stringify\<close> prints of a value: the enumerable properties of an object whose
  value is not \<open>undefined\<close>, in order; in an array \<open>undefined\<close> prints as \<open>null\<close>.
\<close>

fun json_view :: "jsval \<Rightarrow> jsval"
  and json_props :: "(string \<times> bool \<times> jsval) list \<Rightarrow> (string \<times> bool \<times> jsval) list"
  and json_items :: "jsval list \<Rightarrow> jsval list" where
  "json_view (Obj ps) = Obj (json_props ps)"
| "json_view (Arr vs) = Arr (json_items vs)"
| "json_view Undefined = Undefined"
| "json_view Null = Null"
| "json_view (Bool b) = Bool b"
| "json_view (Num n) = Num n"
| "json_view (Str s) = Str s"
| "json_props [] = []"
| "json_props ((k, e, v) # ps) =
     (if e \<and> v \<noteq> Undefined then (k, True, json_view v) # json_props ps else json_props ps)"
| "json_items [] = []"
| "json_items (v # vs) = (if v = Undefined then Null else json_view v) # json_items vs"


subsection \<open>The classification rules\<close>

text \<open>
  The five failure kinds of the specification, each with the condition of its \<open>if\<close>
  statement (lines 47, 52, 57, 63 and 68), in the order of the source.
\<close>

datatype kind =
    CastMismatch
  | DuplicateKey
  | FieldValidation
  | MalformedCredential
  | ExpiredCredential

fun matches :: "kind \<Rightarrow> js_object \<Rightarrow> bool" where
  "matches CastMismatch err = (get_err err ''name'' = Str ''CastError'')"
| "matches DuplicateKey err = (get_err err ''code'' = Num 11000)"
| "matches FieldValidation err = (get_err err ''name'' = Str ''ValidationError'')"
| "matches MalformedCredential err = (get_err err ''name'' = Str ''JsonWebTokenError'')"
| "matches ExpiredCredential err = (get_err err ''name'' = Str ''TokenExpiredError'')"

definition rule_order :: "kind list" where
  "rule_order =
     [CastMismatch, DuplicateKey, FieldValidation, MalformedCredential, ExpiredCredential]"

definition matching :: "js_object \<Rightarrow> kind list" where
  "matching err = filter (\<lambda>k. matches k err) rule_order"

text \<open>
  The per-field violation messages of a validation failure, in the order of
  \<open>err.errors\<close>: defined when \<open>errors\<close> is an object whose values are violations, each an
  object with a string \<open>message\<close>.
\<close>

fun violation_text :: "jsval \<Rightarrow> string option" where
  "violation_text (Obj ps) = (case js_get ps ''message'' of Str m \<Rightarrow> Some m | _ \<Rightarrow> None)"
| "violation_text v = None"

definition violations :: "js_object \<Rightarrow> string list option" where
  "violations err =
     (case get_err err ''errors'' of
        Obj ps \<Rightarrow> those (map (\<lambda>(k, e, v). violation_text v) (spread ps))
      | _ \<Rightarrow> None)"

text \<open>The table of section 4.1 of the specification.\<close>

fun entry_status :: "kind \<Rightarrow> int" where
  "entry_status CastMismatch = 400"
| "entry_status DuplicateKey = 400"
| "entry_status FieldValidation = 400"
| "entry_status MalformedCredential = 401"
| "entry_status ExpiredCredential = 401"

fun entry_message :: "kind \<Rightarrow> js_object \<Rightarrow> string" where
  "entry_message CastMismatch err = ''Invalid ID format''"
| "entry_message DuplicateKey err = ''Duplicate field value entered''"
| "entry_message FieldValidation err =
     (case violations err of Some ms \<Rightarrow> join_strings '', '' ms | None \<Rightarrow> [])"
| "entry_message MalformedCredential err = ''Invalid token''"
| "entry_message ExpiredCredential err = ''Token expired''"

subsection \<open>Failure records used below\<close>

definition production :: runtime where
  "production =
     \<lparr>NODE_ENV = Some ''production'',
      captureStackTrace = (\<lambda>line message.
        ''Error: '' @ message @ '' at errorHandler (errorHandler.js:'' @ string_of_nat line @ '')'')\<rparr>"

text \<open>\<open>new Error('connect ECONNREFUSED 10.0.0.5:27017')\<close>, raised by a database driver.\<close>

definition database_failure :: js_object where
  "database_failure =
     [(''stack'', False,
         Str ''Error: connect ECONNREFUSED 10.0.0.5:27017 at connect (db.js:12:9)''),
      (''message'', False, Str ''connect ECONNREFUSED 10.0.0.5:27017'')]"




text \<open>
  A failure with the duplicate-key code, as the database driver raises it.
\<close>

definition duplicate_failure :: js_object where
  "duplicate_failure =
     [(''stack'', False,
         Str ''MongoServerError: E11000 duplicate key error index: email_1 at insert (users.js:8:5)''),
      (''message'', False, Str ''E11000 duplicate key error index: email_1''),
      (''name'', True, Str ''MongoServerError''),
      (''code'', True, Num 11000)]"

text \<open>
  A failure named \<open>ValidationError\<close> as a schema validator raises it: it lists its
  findings under \<open>details\<close> and has no \<open>errors\<close>.
\<close>

definition schema_failure :: js_object where
  "schema_failure =
     [(''stack'', False, Str ''ValidationError: email is required at validate (schema.js:4:2)''),
      (''message'', False, Str ''email is required''),
      (''name'', True, Str ''ValidationError''),
      (''details'', True, Arr
         [Obj [(''message'', True, Str ''email is required''),
               (''path'', True, Arr [Str ''email''])]])]"

text \<open>\<open>new Error()\<close>: no message, no status code.\<close>

definition bare_failure :: js_object where
  "bare_failure = [(''stack'', False, Str ''Error at handler (routes.js:7:11)'')]"

text \<open>A failure named \<open>CastError\<close> that also carries the duplicate-key code.\<close>

definition cast_and_duplicate :: js_object where
  "cast_and_duplicate =
     [(''stack'', False, Str ''CastError: Cast to ObjectId failed at model.js:3:1''),
      (''message'', False, Str ''Cast to ObjectId failed''),
      (''name'', True, Str ''CastError''),
      (''code'', True, Num 11000)]"

text \<open>A failure named \<open>JsonWebTokenError\<close> that also carries the duplicate-key code.\<close>

definition token_and_duplicate :: js_object where
  "token_and_duplicate =
     [(''stack'', False, Str ''JsonWebTokenError: jwt malformed at verify.js:3:1''),
      (''message'', False, Str ''jwt malformed''),
      (''name'', True, Str ''JsonWebTokenError''),
      (''code'', True, Num 11000)]"

text \<open>A validation failure with two violations.\<close>

definition validation_failure :: js_object where
  "validation_failure =
     [(''stack'', False, Str ''ValidationError: User validation failed at document.js:3:1''),
      (''message'', False, Str ''User validation failed''),
      (''name'', True, Str ''ValidationError''),
      (''errors'', True, Obj
         [(''email'', True, Obj [(''message'', False, Str ''Invalid email format'')]),
          (''name'', True, Obj [(''message'', False, Str ''Name is required'')])])]"

section \<open>middleware/validator.js\<close>

text \<open>
  The rules and their results belong to the express-validator library.
  \<open>validation.run(req)\<close> records what it finds on the request, or rejects; the type
  \<open>'req\<close> of requests is left open. \<open>validationResult(req)\<close> is given by the array that
  \<open>errors.array()\<close> returns, and \<open>errors.isEmpty()\<close> holds when that array is empty.
\<close>

type_synonym 'req validation = "'req \<Rightarrow> js_exn + 'req"

text \<open>
  Line 13, \<open>await Promise.all(validations.map(validation => validation.run(req)))\<close>:
  every rule is started, and the join rejects when a run rejects. The runs are taken in
  the order of the list.
\<close>

fun run_all :: "'req validation list \<Rightarrow> 'req \<Rightarrow> js_exn + 'req" where
  "run_all [] req = Inr req"
| "run_all (validation # validations) req =
     (case validation req of
        Inl ex \<Rightarrow> Inl ex
      | Inr req' \<Rightarrow> run_all validations req')"

text \<open>What a middleware does with a request: it answers, or it calls \<open>next\<close>.\<close>

datatype outcome =
    Responded response
  | Next
  | NextError js_exn

definition validate ::
  "'req validation list \<Rightarrow> ('req \<Rightarrow> jsval list) \<Rightarrow> 'req \<Rightarrow> outcome" where
  "validate validations validationResult req =
     (case run_all validations req of
        Inl error \<Rightarrow> NextError error
      | Inr req' \<Rightarrow>
          (let errors = validationResult req'
           in if errors \<noteq> []
              then Responded
                \<lparr>status_code = Num 422,
                 json =
                   [(''success'', True, Bool False),
                    (''message'', True, Str ''Validation failed''),
                    (''errors'', True, Arr errors)]\<rparr>
              else Next))"

section \<open>controllers/mainController.js\<close>

text \<open>
  \<open>simulateError\<close>, lines 82 to 99. \<open>createError\<close> comes from a module that is not part
  of the sources: it is a parameter, giving for its arguments the value that reaches the
  \<open>catch\<close> clause. \<open>errors\<close> is the array of \<open>validationResult(req)\<close>. The call of
  \<open>logger.error\<close>, of a module that is not part of the sources either, is left out. The
  handler has no \<open>next\<close>: it writes a response, or its promise rejects (\<open>Inl\<close>).
\<close>

definition caught :: "(jsval list \<Rightarrow> jsval) \<Rightarrow> jsval list \<Rightarrow> jsval" where
  "caught createError errors =
     (if errors \<noteq> []
      then createError [Num 400, Str ''Validation failed'', Arr errors]
      else createError [Num 500, Str ''Simulated server error for testing purposes''])"

definition simulateError :: "(jsval list \<Rightarrow> jsval) \<Rightarrow> jsval list \<Rightarrow> js_exn + response" where
  "simulateError createError errors =
     (let error = caught createError errors
      in case member error ''statusCode'' of
           Inl ex \<Rightarrow> Inl ex
         | Inr statusCode \<Rightarrow>
             (case member error ''message'' of
                Inl ex \<Rightarrow> Inl ex
              | Inr message \<Rightarrow> Inr
                  \<lparr>status_code = js_or statusCode (Num 500),
                   json =
                     [(''status'', True, Str ''error''),
                      (''message'', True, js_or message (Str ''Internal server error''))]\<rparr>))"

text \<open>
  A request as the rule of the scenario in section 8 sees it: the body and the violations
  recorded so far. The rule is \<open>body('name').isLength({ min: 2, max: 50 })\<close> with its
  message.
\<close>

record request =
  body :: js_object
  recorded :: "jsval list"

definition name_length_rule :: "request validation" where
  "name_length_rule req =
     (let name = to_string (js_get (body req) ''name'')
      in if 2 \<le> length name \<and> length name \<le> 50 then Inr req
         else Inr (req\<lparr>recorded := recorded req @
           [Obj [(''field'', True, Str ''name''),
                 (''message'', True, Str ''Name must be between 2 and 50 characters long'')]]\<rparr>))"

definition short_name_request :: request where
  "short_name_request = \<lparr>body = [(''name'', True, Str ''A'')], recorded = []\<rparr>"

definition good_name_request :: request where
  "good_name_request = \<lparr>body = [(''name'', True, Str ''Ada'')], recorded = []\<rparr>"

text \<open>A rule whose run rejects, as a custom check that queries a database can.\<close>

definition rejecting_rule :: "request validation" where
  "rejecting_rule req = Inl (Error ''connection lost'')"

text \<open>A \<open>createError\<close> that returns an object with the status code and the message.\<close>

definition plain_createError :: "jsval list \<Rightarrow> jsval" where
  "plain_createError args =
     (case args of
        statusCode # message # rest \<Rightarrow>
          Obj [(''statusCode'', True, statusCode), (''message'', True, message)]
      | _ \<Rightarrow> Undefined)"

section \<open>The rules of the validator\<close>

text \<open>
  Modelled from the spec: the rules of express-validator, a library that is not among the
  sources. By section 4.2 a rule is a pure predicate over the value of one field, and by
  sections 3 and 6 a violation is the pair of the field and the message of the rule. A
  rule that fails records its violation on the request; a rule that passes records
  nothing; no rule rejects.
\<close>

record rule =
  rule_field :: string
  rule_message :: string
  rule_check :: "jsval \<Rightarrow> bool"

text \<open>Modelled from the spec: the entry a failing rule contributes (section 6).\<close>

definition violation :: "rule \<Rightarrow> jsval" where
  "violation r = Obj [(''field'', True, Str (rule_field r)), (''message'', True, Str (rule_message r))]"

text \<open>Modelled from the spec: a rule fails when its predicate rejects the field's value.\<close>

definition fails :: "request \<Rightarrow> rule \<Rightarrow> bool" where
  "fails req r = (\<not> rule_check r (js_get (body req) (rule_field r)))"

text \<open>Modelled from the spec: \<open>validation.run(req)\<close> for a rule.\<close>

definition run_rule :: "rule \<Rightarrow> request validation" where
  "run_rule r req =
     (if fails req r then Inr (req\<lparr>recorded := recorded req @ [violation r]\<rparr>) else Inr req)"

text \<open>The first length checks on \<open>name\<close> and \<open>password\<close> of \<open>userValidationRules\<close> (lines 46
  to 53), in the shape of the model, and a request that fails both.\<close>

definition name_rule :: rule where
  "name_rule =
     \<lparr>rule_field = ''name'',
      rule_message = ''Name must be between 2 and 50 characters long'',
      rule_check = (\<lambda>v. 2 \<le> length (to_string v) \<and> length (to_string v) \<le> 50)\<rparr>"

definition password_rule :: rule where
  "password_rule =
     \<lparr>rule_field = ''password'',
      rule_message = ''Password must be at least 8 characters long'',
      rule_check = (\<lambda>v. 8 \<le> length (to_string v))\<rparr>"

definition signup_request :: request where
  "signup_request =
     \<lparr>body = [(''password'', True, Str ''pw''), (''name'', True, Str ''A'')],
      recorded = []\<rparr>"

section \<open>The configuration manager (controllers/mainController.js, lines 303 to 513)\<close>

text \<open>
  What the manager reads from its host: the file system under \<open>process.cwd()\<close>
  (\<open>fs.readFile\<close> with the path as the source writes it, before \<open>path.resolve\<close>),
  \<open>JSON.parse\<close>, and the conversion of a string to a number that \<open><\<close>, \<open>>\<close> and
  \<open>isNaN\<close> apply, \<open>None\<close> standing for \<open>NaN\<close>. Console output is not part of the state.
\<close>

record host =
  readFile :: "string \<Rightarrow> js_exn + string"
  JSON_parse :: "string \<Rightarrow> js_exn + jsval"
  StringToNumber :: "string \<Rightarrow> int option"

record process =
  env :: "(string \<times> string) list"
  exit_code :: "int option"

record config_manager =
  config :: js_object
  isLoaded :: bool

text \<open>The constructor, lines 320 to 323.\<close>

definition new_ConfigManager :: config_manager where
  "new_ConfigManager = \<lparr>config = [], isLoaded = False\<rparr>"

definition a_acute :: string where "a_acute = [CHR 0xC3, CHR 0xA1]"
definition o_acute :: string where "o_acute = [CHR 0xC3, CHR 0xB3]"
definition u_acute :: string where "u_acute = [CHR 0xC3, CHR 0xBA]"

text \<open>\<open>s.split(sep)\<close> for a separator of one character.\<close>

fun split :: "char \<Rightarrow> string \<Rightarrow> string list" where
  "split sep [] = [[]]"
| "split sep (c # cs) =
     (if c = sep then [] # split sep cs
      else (case split sep cs of [] \<Rightarrow> [[c]] | w # ws \<Rightarrow> (c # w) # ws))"

text \<open>\<open>s.trim()\<close>, on the white space of ASCII.\<close>

definition is_space :: "char \<Rightarrow> bool" where
  "is_space c = (c \<in> set [CHR '' '', CHR 0x09, CHR 0x0A, CHR 0x0B, CHR 0x0C, CHR 0x0D])"

definition trim :: "string \<Rightarrow> string" where
  "trim s = rev (dropWhile is_space (rev (dropWhile is_space s)))"

text \<open>\<open>process.env[key] = value\<close>\<close>

fun env_put :: "(string \<times> string) list \<Rightarrow> string \<Rightarrow> string \<Rightarrow> (string \<times> string) list" where
  "env_put [] k v = [(k, v)]"
| "env_put ((k', v') # kvs) k v = (if k' = k then (k', v) # kvs else (k', v') # env_put kvs k v)"

text \<open>Lines 360 to 367: the \<open>key=value\<close> lines of the file, comments and blank lines left out.\<close>

definition env_entry :: "string \<Rightarrow> string \<times> string" where
  "env_entry line =
     (case split CHR ''='' line of
        [] \<Rightarrow> ([], [])
      | [key] \<Rightarrow> (trim key, [])
      | key # value # rest \<Rightarrow>
          (trim key,
           if value \<noteq> [] then filter (\<lambda>c. c \<noteq> CHR 0x27 \<and> c \<noteq> CHR 0x22) (trim value) else []))"

definition parse_env :: "string \<Rightarrow> (string \<times> string) list" where
  "parse_env envContent =
     foldl (\<lambda>acc line. env_put acc (fst (env_entry line)) (snd (env_entry line))) []
       (filter (\<lambda>line. trim line \<noteq> [] \<and> \<not> startsWith line ''#'') (split CHR 0x0A envContent))"

text \<open>
  \<open>loadEnvConfig\<close>, lines 355 to 377. The keys of the file are taken to be names that
  \<open>process.env\<close> accepts.
\<close>

definition loadEnvConfig :: "host \<Rightarrow> process \<Rightarrow> js_exn + process" where
  "loadEnvConfig h proc =
     (case readFile h ''.env'' of
        Inr envContent \<Rightarrow>
          Inr (proc\<lparr>env := foldl (\<lambda>acc (k, v). env_put acc k v) (env proc) (parse_env envContent)\<rparr>)
      | Inl error \<Rightarrow>
          if exn_code error \<noteq> Str ''ENOENT''
          then Inl (Error (''Error al leer el archivo .env: '' @ exn_message error))
          else Inr proc)"

text \<open>\<open>{ ...v }\<close> for any value: the own enumerable properties it contributes.\<close>

fun own_enumerable :: "jsval \<Rightarrow> js_object" where
  "own_enumerable (Obj ps) = spread ps"
| "own_enumerable (Arr vs) = map (\<lambda>(i, v). (string_of_nat i, True, v)) (enumerate 0 vs)"
| "own_enumerable (Str s) = map (\<lambda>(i, c). (string_of_nat i, True, Str [c])) (enumerate 0 s)"
| "own_enumerable v = []"

text \<open>\<open>loadEnvironmentConfig\<close>, lines 385 to 406.\<close>

definition environment_name :: "process \<Rightarrow> string" where
  "environment_name proc =
     (case map_of (env proc) ''NODE_ENV'' of
        Some e \<Rightarrow> if e \<noteq> [] then e else ''development''
      | None \<Rightarrow> ''development'')"

definition loadEnvironmentConfig :: "host \<Rightarrow> config_manager \<Rightarrow> process \<Rightarrow> js_exn + config_manager" where
  "loadEnvironmentConfig h cm proc =
     (let environment = environment_name proc;
          configPath = ''config/'' @ environment @ ''.json''
      in case (case readFile h configPath of
                 Inl error \<Rightarrow> Inl error
               | Inr configContent \<Rightarrow> JSON_parse h configContent) of
           Inr environmentConfig \<Rightarrow>
             Inr (cm\<lparr>config :=
               assign
                 (foldl (\<lambda>acc (k, e, v). assign acc k v) (spread (config cm))
                    (own_enumerable environmentConfig))
                 ''environment'' (Str environment)\<rparr>)
         | Inl error \<Rightarrow>
             if exn_code error = Str ''ENOENT''
             then Inr (cm\<lparr>config := assign (config cm) ''environment'' (Str environment)\<rparr>)
             else Inl (Error (''Error al cargar configuraci'' @ o_acute @ ''n de entorno: ''
                              @ exn_message error)))"

text \<open>\<open>ToNumber\<close>, and the comparisons with a number that use it.\<close>

fun to_number :: "host \<Rightarrow> jsval \<Rightarrow> int option" where
  "to_number h Undefined = None"
| "to_number h Null = Some 0"
| "to_number h (Bool b) = Some (if b then 1 else 0)"
| "to_number h (Num n) = Some n"
| "to_number h (Str s) = StringToNumber h s"
| "to_number h (Arr vs) = StringToNumber h (to_string (Arr vs))"
| "to_number h (Obj ps) = StringToNumber h (to_string (Obj ps))"

definition js_less :: "host \<Rightarrow> jsval \<Rightarrow> int \<Rightarrow> bool" where
  "js_less h v n = (case to_number h v of Some m \<Rightarrow> m < n | None \<Rightarrow> False)"

definition js_greater :: "host \<Rightarrow> jsval \<Rightarrow> int \<Rightarrow> bool" where
  "js_greater h v n = (case to_number h v of Some m \<Rightarrow> n < m | None \<Rightarrow> False)"

definition isNaN :: "host \<Rightarrow> jsval \<Rightarrow> bool" where
  "isNaN h v = (to_number h v = None)"

text \<open>\<open>v.startsWith(p)\<close>: only a string has the method.\<close>

fun js_startsWith :: "jsval \<Rightarrow> string \<Rightarrow> js_exn + bool" where
  "js_startsWith (Str s) p = Inr (startsWith s p)"
| "js_startsWith Undefined p = Inl (TypeError ''Cannot read properties of undefined'')"
| "js_startsWith Null p = Inl (TypeError ''Cannot read properties of null'')"
| "js_startsWith v p = Inl (TypeError ''this.config.databaseUrl.startsWith is not a function'')"

text \<open>\<open>validateConfig\<close>, lines 414 to 440.\<close>

definition required :: "string list" where
  "required = [''port'', ''databaseUrl'', ''jwtSecret'']"

definition validateConfig :: "host \<Rightarrow> config_manager \<Rightarrow> js_exn + unit" where
  "validateConfig h cm =
     (let missing = filter (\<lambda>key. \<not> truthy (js_get (config cm) key)) required
      in if length missing > 0
         then Inl (Error (''Configuraci'' @ o_acute @ ''n incompleta. Faltan: ''
                          @ join_strings '', '' missing))
         else if truthy (js_get (config cm) ''port'') \<and>
                 (js_less h (js_get (config cm) ''port'') 1 \<or>
                  js_greater h (js_get (config cm) ''port'') 65535)
         then Inl (Error (''Puerto inv'' @ a_acute @ ''lido. Debe estar entre 1 y 65535''))
         else
           (case js_startsWith (js_get (config cm) ''databaseUrl'') ''mongodb://'' of
              Inl ex \<Rightarrow> Inl ex
            | Inr mongo \<Rightarrow>
                (case (if mongo then Inr False
                       else map_sum id Not
                         (js_startsWith (js_get (config cm) ''databaseUrl'') ''postgres://'')) of
                   Inl ex \<Rightarrow> Inl ex
                 | Inr invalid \<Rightarrow>
                     if invalid
                     then Inl (Error (''URL de base de datos inv'' @ a_acute
                                      @ ''lida. Debe ser MongoDB o PostgreSQL''))
                     else if truthy (js_get (config cm) ''jwtExpiration'') \<and>
                             isNaN h (js_get (config cm) ''jwtExpiration'')
                     then Inl (Error (''jwtExpiration debe ser un n'' @ u_acute @ ''mero v''
                                      @ a_acute @ ''lido''))
                     else Inr ())))"

text \<open>
  \<open>loadConfig\<close>, lines 330 to 347: the manager and the process as the call leaves them,
  and the exception it throws, if any.
\<close>

definition config_error :: "js_exn \<Rightarrow> js_exn" where
  "config_error error = Error (''Error de configuraci'' @ o_acute @ ''n: '' @ exn_message error)"

definition loadConfig ::
  "host \<Rightarrow> config_manager \<Rightarrow> process \<Rightarrow> config_manager \<times> process \<times> (js_exn + unit)" where
  "loadConfig h cm proc =
     (case loadEnvConfig h proc of
        Inl error \<Rightarrow> (cm, proc, Inl (config_error error))
      | Inr proc1 \<Rightarrow>
          (case loadEnvironmentConfig h cm proc1 of
             Inl error \<Rightarrow> (cm, proc1, Inl (config_error error))
           | Inr cm1 \<Rightarrow>
               (case validateConfig h cm1 of
                  Inl error \<Rightarrow> (cm1, proc1, Inl (config_error error))
                | Inr u \<Rightarrow> (cm1\<lparr>isLoaded := True\<rparr>, proc1, Inr ()))))"

text \<open>
  Lines 505 to 511: the module creates the one manager and loads it; a failed load ends
  the process with \<open>process.exit(1)\<close>.
\<close>

definition startup :: "host \<Rightarrow> process \<Rightarrow> config_manager \<times> process" where
  "startup h proc =
     (case loadConfig h new_ConfigManager proc of
        (cm, proc', Inl error) \<Rightarrow> (cm, proc'\<lparr>exit_code := Some 1\<rparr>)
      | (cm, proc', Inr u) \<Rightarrow> (cm, proc'))"

text \<open>The accessors, lines 448 to 501. An omitted default is \<open>Undefined\<close>.\<close>

definition not_loaded :: js_exn where
  "not_loaded = Error (''La configuraci'' @ o_acute @ ''n no ha sido cargada a'' @ u_acute @ ''n'')"

definition get :: "config_manager \<Rightarrow> string \<Rightarrow> jsval \<Rightarrow> js_exn + jsval" where
  "get cm key defaultValue =
     (if \<not> isLoaded cm then Inl not_loaded
      else Inr (if js_get (config cm) key \<noteq> Undefined then js_get (config cm) key
                else if defaultValue = Undefined then Null else defaultValue))"

definition getAll :: "config_manager \<Rightarrow> js_exn + jsval" where
  "getAll cm = (if \<not> isLoaded cm then Inl not_loaded else Inr (Obj (spread (config cm))))"

definition getDatabaseConfig :: "config_manager \<Rightarrow> js_exn + jsval" where
  "getDatabaseConfig cm =
     (case get cm ''databaseUrl'' Undefined of
        Inl ex \<Rightarrow> Inl ex
      | Inr url \<Rightarrow>
          (case get cm ''databaseOptions'' (Obj []) of
             Inl ex \<Rightarrow> Inl ex
           | Inr options \<Rightarrow> Inr (Obj [(''url'', True, url), (''options'', True, options)])))"

definition getSecurityConfig :: "config_manager \<Rightarrow> js_exn + jsval" where
  "getSecurityConfig cm =
     (case get cm ''jwtSecret'' Undefined of
        Inl ex \<Rightarrow> Inl ex
      | Inr jwtSecret \<Rightarrow>
          (case get cm ''jwtExpiration'' (Str ''24h'') of
             Inl ex \<Rightarrow> Inl ex
           | Inr jwtExpiration \<Rightarrow>
               (case get cm ''sessionSecret'' (Str ''default-session-secret'') of
                  Inl ex \<Rightarrow> Inl ex
                | Inr sessionSecret \<Rightarrow> Inr (Obj
                    [(''jwtSecret'', True, jwtSecret),
                     (''jwtExpiration'', True, jwtExpiration),
                     (''sessionSecret'', True, sessionSecret)]))))"

definition getServerConfig :: "config_manager \<Rightarrow> js_exn + jsval" where
  "getServerConfig cm =
     (case get cm ''port'' (Num 3000) of
        Inl ex \<Rightarrow> Inl ex
      | Inr port \<Rightarrow>
          (case get cm ''host'' (Str ''localhost'') of
             Inl ex \<Rightarrow> Inl ex
           | Inr host \<Rightarrow>
               (case get cm ''sslEnabled'' (Bool False) of
                  Inl ex \<Rightarrow> Inl ex
                | Inr sslEnabled \<Rightarrow> Inr (Obj
                    [(''port'', True, port),
                     (''host'', True, host),
                     (''sslEnabled'', True, sslEnabled)]))))"

text \<open>Hosts and processes used below.\<close>

definition no_file :: js_exn where
  "no_file = SystemError ''ENOENT'' ''ENOENT: no such file or directory''"

definition host_with :: "jsval \<Rightarrow> host" where
  "host_with settings =
     \<lparr>readFile = (\<lambda>path. if path = ''config/production.json'' then Inr ''settings'' else Inl no_file),
      JSON_parse = (\<lambda>content. if content = ''settings'' then Inr settings
                               else Inl (SyntaxError ''Unexpected token'')),
      StringToNumber = (\<lambda>s. None)\<rparr>"

definition production_process :: process where
  "production_process = \<lparr>env = [(''NODE_ENV'', ''production'')], exit_code = None\<rparr>"

definition good_settings :: jsval where
  "good_settings =
     Obj [(''port'', True, Num 8080),
          (''databaseUrl'', True, Str ''mongodb://db.internal:27017/app''),
          (''jwtSecret'', True, Str ''s3cret'')]"



section \<open>The server and the order of start-up\<close>

text \<open>
  The server, \<open>src/README.md\<close> lines 152 to 260. The constructor takes the port from
  \<open>process.env.PORT\<close>; \<open>start\<close> calls \<open>app.listen\<close>, given by what it does for a port
  (it returns or throws), and ends the process when that throws. Neither reads the
  configuration manager.
\<close>

record server =
  port :: jsval
  listening :: bool






section \<open>Properties of the value model\<close>

lemma map_of_assign:
  "map_of (assign ps k v) k' =
     (if k' = k then Some (case map_of ps k of Some (e, w) \<Rightarrow> (e, v) | None \<Rightarrow> (True, v))
      else map_of ps k')"
  by (induction ps) auto

lemma js_get_assign: "js_get (assign ps k v) k' = (if k' = k then v else js_get ps k')"
  by (simp add: js_get_def map_of_assign split: option.splits)

lemma get_err_assign: "get_err (assign ps k v) k' = (if k' = k then v else get_err ps k')"
  by (simp add: get_err_def map_of_assign split: option.splits)

lemma assign_same: "map_of ps k = Some (e, v) \<Longrightarrow> assign ps k v = ps"
  by (induction ps) (auto split: if_splits)

lemma truthy_js_or: "truthy b \<Longrightarrow> truthy (js_or a b)"
  by (simp add: js_or_def)

lemma keys_Nil: "keys [] = []"
  by (simp add: keys_def spread_def)

lemma keys_Cons: "keys ((k, e, v) # ps) = (if e then k # keys ps else keys ps)"
  by (simp add: keys_def spread_def)

lemma keys_assign: "set (keys (assign ps k v)) \<subseteq> insert k (set (keys ps))"
  by (induction ps k v rule: assign.induct) (auto simp: keys_Nil keys_Cons)

lemma keys_spread: "keys (spread ps) = keys ps"
  by (simp add: keys_def spread_def)

section \<open>Properties of the error handler\<close>

subsection \<open>The defaults and the copy\<close>

lemma get_err_set_defaults:
  "get_err (set_defaults err) k =
     (if k = ''statusCode'' then js_or (get_err err ''statusCode'') (Num 500)
      else if k = ''message'' then js_or (get_err err ''message'') (Str ''Internal Server Error'')
      else get_err err k)"
  by (simp add: set_defaults_def Let_def get_err_assign)

lemma name_set_defaults: "get_err (set_defaults err) ''name'' = get_err err ''name''"
  and code_set_defaults: "get_err (set_defaults err) ''code'' = get_err err ''code''"
  and errors_set_defaults: "get_err (set_defaults err) ''errors'' = get_err err ''errors''"
  by (simp_all add: get_err_set_defaults)

lemma assign_own_statusCode:
  assumes "truthy (get_err ps ''statusCode'')"
  shows "assign ps ''statusCode'' (js_or (get_err ps ''statusCode'') v) = ps"
proof -
  from assms obtain e where "map_of ps ''statusCode'' = Some (e, get_err ps ''statusCode'')"
    by (auto simp: get_err_def split: option.splits)
  with assms show ?thesis by (simp add: js_or_def assign_same)
qed

lemma assign_own_message:
  assumes "truthy (get_err ps ''message'')"
  shows "assign ps ''message'' (js_or (get_err ps ''message'') v) = ps"
proof -
  from assms obtain e where "map_of ps ''message'' = Some (e, get_err ps ''message'')"
    by (auto simp: get_err_def split: option.splits)
  with assms show ?thesis by (simp add: js_or_def assign_same)
qed

lemma set_defaults_unchanged:
  "truthy (get_err err ''statusCode'') \<Longrightarrow> truthy (get_err err ''message'') \<Longrightarrow>
   set_defaults err = err"
  by (simp add: set_defaults_def Let_def assign_own_statusCode assign_own_message)


lemma keys_set_defaults:
  "set (keys (set_defaults err)) \<subseteq> insert ''statusCode'' (insert ''message'' (set (keys err)))"
proof -
  have "set (keys (set_defaults err))
          \<subseteq> insert ''message''
              (set (keys (assign err ''statusCode'' (js_or (get_err err ''statusCode'') (Num 500)))))"
    by (simp add: set_defaults_def Let_def keys_assign)
  also have "\<dots> \<subseteq> insert ''message'' (insert ''statusCode'' (set (keys err)))"
    using keys_assign [of err "''statusCode''"] by auto
  finally show ?thesis by auto
qed

lemma keys_copy_error:
  "set (keys (copy_error err)) \<subseteq> insert ''statusCode'' (insert ''message'' (set (keys err)))"
proof -
  have "set (keys (copy_error err))
          \<subseteq> insert ''statusCode''
              (set (keys (assign (spread err) ''message'' (get_err err ''message''))))"
    by (simp add: copy_error_def Let_def keys_assign)
  also have "\<dots> \<subseteq> insert ''statusCode'' (insert ''message'' (set (keys (spread err))))"
    using keys_assign [of "spread err" "''message''"] by auto
  finally show ?thesis by (simp add: keys_spread)
qed

lemma failure_after_errorHandler:
  "failure_after (errorHandler rt console err) = set_defaults err"
  by (simp add: errorHandler_def Let_def split: sum.splits)

subsection \<open>The replacement objects\<close>

lemma js_get_new_AppError:
  "js_get (new_AppError rt l m (Num 400)) ''statusCode'' = Num 400"
  "js_get (new_AppError rt l m (Num 401)) ''statusCode'' = Num 401"
  "js_get (new_AppError rt l m c) ''message'' = Str m"
  "js_get (new_AppError rt l m c) ''stack'' = Str (captureStackTrace rt l m)"
  "js_get (new_AppError rt l m (Num 400)) ''status'' = Str ''fail''"
  "js_get (new_AppError rt l m (Num 401)) ''status'' = Str ''fail''"
  by (simp_all add: new_AppError_def AppError_def js_get_def startsWith_def string_of_int_def)

lemma keys_new_AppError:
  "keys (new_AppError rt line message statusCode) = [''statusCode'', ''isOperational'', ''status'']"
  by (simp add: keys_def spread_def new_AppError_def AppError_def)

lemma classify_result:
  assumes "classify rt err error0 = Inr error"
  shows "error = error0 \<or>
         (\<exists>line message statusCode. error = new_AppError rt line message statusCode)"
  using assms
  by (auto simp: classify_def Let_def split: if_splits sum.splits)

subsection \<open>The message of a validation failure\<close>

lemma those_map_throwing:
  "those (map violation_text vs) = Some ms \<Longrightarrow>
   map_throwing (\<lambda>val. member val ''message'') vs = Inr (map Str ms)"
proof (induction vs arbitrary: ms)
  case Nil
  then show ?case by simp
next
  case (Cons v vs)
  then show ?case
    by (cases v) (auto split: option.splits jsval.splits)
qed

lemma join_Str: "join sep (map Str ms) = join_strings sep ms"
  by (simp add: join_def comp_def)

lemma validation_message_violations:
  assumes "violations err = Some ms"
  shows "validation_message (get_err err ''errors'') = Inr (join_strings '', '' ms)"
proof -
  from assms obtain ps where ps: "get_err err ''errors'' = Obj ps"
    and th: "those (map (\<lambda>(k, e, v). violation_text v) (spread ps)) = Some ms"
    by (auto simp: violations_def split: jsval.splits)
  have "map (\<lambda>(k, e, v). violation_text v) (spread ps)
          = map violation_text (map (\<lambda>(k, e, v). v) (spread ps))"
    by (simp add: comp_def case_prod_unfold)
  with th have "map_throwing (\<lambda>val. member val ''message'') (map (\<lambda>(k, e, v). v) (spread ps))
                  = Inr (map Str ms)"
    by (simp add: those_map_throwing)
  then show ?thesis
    by (simp add: validation_message_def ps join_Str)
qed

text \<open>
  Without the collection the third rule cannot build its message: for a failure named
  \<open>ValidationError\<close> that has no \<open>errors\<close>, the handler throws and writes nothing.
\<close>

lemma validation_without_errors_throws:
  assumes "get_err err ''name'' = Str ''ValidationError''"
    and "get_err err ''errors'' = Undefined"
  shows "written (errorHandler rt console err)
           = Inl (TypeError ''Cannot convert undefined or null to object'')"
  using assms
  by (simp add: errorHandler_def classify_def validation_message_def Let_def
      name_set_defaults errors_set_defaults)

subsection \<open>Which rules match\<close>

lemma in_matching: "k \<in> set (matching err) \<longleftrightarrow> matches k err"
  by (cases k) (simp_all add: matching_def rule_order_def)

lemma matching_unfold:
  "matching err =
     (if get_err err ''name'' = Str ''CastError'' then [CastMismatch] else []) @
     (if get_err err ''code'' = Num 11000 then [DuplicateKey] else []) @
     (if get_err err ''name'' = Str ''ValidationError'' then [FieldValidation] else []) @
     (if get_err err ''name'' = Str ''JsonWebTokenError'' then [MalformedCredential] else []) @
     (if get_err err ''name'' = Str ''TokenExpiredError'' then [ExpiredCredential] else [])"
  by (simp add: matching_def rule_order_def)

lemma matching_set_defaults: "matching (set_defaults err) = matching err"
  by (simp add: matching_def rule_order_def name_set_defaults code_set_defaults)

lemma violations_set_defaults: "violations (set_defaults err) = violations err"
  by (simp add: violations_def errors_set_defaults)

lemma classify_last:
  assumes "matching err \<noteq> []"
    and "FieldValidation \<in> set (matching err) \<longrightarrow> violations err \<noteq> None"
  shows "\<exists>error. classify rt err error0 = Inr error
           \<and> js_get error ''statusCode'' = Num (entry_status (last (matching err)))
           \<and> js_get error ''message'' = Str (entry_message (last (matching err)) err)
           \<and> js_get error ''status'' = Str ''fail''"
proof (cases "get_err err ''name'' = Str ''ValidationError''")
  case True
  with assms(2) obtain ms where ms: "violations err = Some ms"
    by (auto simp: in_matching)
  from True ms show ?thesis
    by (simp add: classify_def Let_def validation_message_violations js_get_new_AppError
        matching_unfold)
next
  case False
  with assms(1) show ?thesis
    by (auto simp: classify_def Let_def js_get_new_AppError matching_unfold)
qed

lemma reply_classified:
  assumes "matching err \<noteq> []"
    and "FieldValidation \<in> set (matching err) \<longrightarrow> violations err \<noteq> None"
  shows "reply (errorHandler rt console err) =
           Some (Num (entry_status (last (matching err))), Str ''fail'',
                 Str (entry_message (last (matching err)) err))"
proof -
  from assms have "matching (set_defaults err) \<noteq> []"
    and "FieldValidation \<in> set (matching (set_defaults err))
           \<longrightarrow> violations (set_defaults err) \<noteq> None"
    by (simp_all add: matching_set_defaults violations_set_defaults)
  from classify_last [OF this, of rt "copy_error (set_defaults err)"]
  obtain error where "classify rt (set_defaults err) (copy_error (set_defaults err)) = Inr error"
    and "js_get error ''statusCode'' = Num (entry_status (last (matching err)))"
    and "js_get error ''message''
           = Str (entry_message (last (matching (set_defaults err))) (set_defaults err))"
    and "js_get error ''status'' = Str ''fail''"
    by (auto simp: matching_set_defaults)
  moreover have "entry_message k (set_defaults err) = entry_message k err" for k
    by (cases k) (simp_all add: violations_set_defaults)
  ultimately show ?thesis
    by (simp add: reply_def errorHandler_def Let_def js_get_def matching_set_defaults)
qed

subsection \<open>What the response depends on\<close>

lemma classify_unmatched: "matching err = [] \<Longrightarrow> classify rt err error0 = Inr error0"
  by (simp add: classify_def Let_def matching_unfold split: if_splits)

lemma classify_kind:
  assumes "matching err \<noteq> []" and "last (matching err) \<noteq> FieldValidation"
  shows "classify rt err error0 = Inr
     (case last (matching err) of
        CastMismatch \<Rightarrow> new_AppError rt 49 ''Invalid ID format'' (Num 400)
      | DuplicateKey \<Rightarrow> new_AppError rt 54 ''Duplicate field value entered'' (Num 400)
      | FieldValidation \<Rightarrow> error0
      | MalformedCredential \<Rightarrow> new_AppError rt 65 ''Invalid token'' (Num 401)
      | ExpiredCredential \<Rightarrow> new_AppError rt 70 ''Token expired'' (Num 401))"
  using assms
  by (simp add: classify_def Let_def matching_unfold split: if_splits)

lemma classify_same_kind:
  assumes "matching err \<noteq> []" and "matching err' \<noteq> []"
    and "last (matching err) = last (matching err')"
    and "last (matching err) \<noteq> FieldValidation"
  shows "classify rt err error0 = classify rt err' error0'"
proof -
  from assms have "last (matching err') \<noteq> FieldValidation"
    by simp
  with assms show ?thesis
    by (cases "last (matching err')") (simp_all add: classify_kind)
qed

lemma classify_same_errors:
  assumes "matches FieldValidation err" and "matches FieldValidation err'"
    and "get_err err ''errors'' = get_err err' ''errors''"
  shows "classify rt err error0 = classify rt err' error0'"
  using assms
  by (simp add: classify_def Let_def split: sum.splits)

lemma written_classify:
  "written (errorHandler rt console err) =
     (case classify rt (set_defaults err) (copy_error (set_defaults err)) of
        Inl ex \<Rightarrow> Inl ex
      | Inr error \<Rightarrow> Inr
          \<lparr>status_code = js_get error ''statusCode'',
           json =
             [(''status'', True, js_get error ''status''),
              (''error'', True, Obj error),
              (''message'', True, js_get error ''message''),
              (''stack'', True, (if development rt then js_get error ''stack'' else Obj []))]\<rparr>)"
  by (simp add: errorHandler_def Let_def split: sum.splits)

lemma written_same_kind:
  assumes "matching err \<noteq> []" and "matching err' \<noteq> []"
    and "last (matching err) = last (matching err')"
    and "last (matching err) \<noteq> FieldValidation"
  shows "written (errorHandler rt console err) = written (errorHandler rt console' err')"
proof -
  from assms have "classify rt (set_defaults err) (copy_error (set_defaults err))
      = classify rt (set_defaults err') (copy_error (set_defaults err'))"
    by (intro classify_same_kind) (simp_all add: matching_set_defaults)
  then show ?thesis by (simp add: written_classify)
qed

lemma written_same_errors:
  assumes "matches FieldValidation err" and "matches FieldValidation err'"
    and "get_err err ''errors'' = get_err err' ''errors''"
  shows "written (errorHandler rt console err) = written (errorHandler rt console' err')"
proof -
  from assms have "classify rt (set_defaults err) (copy_error (set_defaults err))
      = classify rt (set_defaults err') (copy_error (set_defaults err'))"
    by (intro classify_same_errors) (simp_all add: name_set_defaults errors_set_defaults)
  then show ?thesis by (simp add: written_classify)
qed

lemma written_unmatched:
  assumes "matching err = []"
  shows "written (errorHandler rt console err) = Inr
     \<lparr>status_code = js_or (get_err err ''statusCode'') (Num 500),
      json =
        [(''status'', True, js_get (copy_error (set_defaults err)) ''status''),
         (''error'', True, Obj (copy_error (set_defaults err))),
         (''message'', True, js_or (get_err err ''message'') (Str ''Internal Server Error'')),
         (''stack'', True,
            (if development rt then js_get (copy_error (set_defaults err)) ''stack''
             else Obj []))]\<rparr>"
proof -
  from assms have "classify rt (set_defaults err) (copy_error (set_defaults err))
      = Inr (copy_error (set_defaults err))"
    by (simp add: classify_unmatched matching_set_defaults)
  moreover have "js_get (copy_error (set_defaults err)) ''statusCode''
      = js_or (get_err err ''statusCode'') (Num 500)"
    and "js_get (copy_error (set_defaults err)) ''message''
      = js_or (get_err err ''message'') (Str ''Internal Server Error'')"
    by (simp_all add: copy_error_def Let_def js_get_assign get_err_set_defaults)
  ultimately show ?thesis by (simp add: written_classify)
qed

lemma error_entry:
  assumes "written (errorHandler rt console err) = Inr r"
  obtains error where "classify rt (set_defaults err) (copy_error (set_defaults err)) = Inr error"
    and "json r =
       [(''status'', True, js_get error ''status''),
        (''error'', True, Obj error),
        (''message'', True, js_get error ''message''),
        (''stack'', True, (if development rt then js_get error ''stack'' else Obj []))]"
  using assms by (auto simp: written_classify split: sum.splits)

lemma production_stack:
  assumes "\<not> development rt" and "written (errorHandler rt console err) = Inr r"
  shows "stackTrace r = Obj []"
    and "''stack'' \<notin> set (keys err) \<Longrightarrow>
         \<exists>error. errorDetail r = Obj error \<and> ''stack'' \<notin> set (keys error)"
proof -
  from assms(2) obtain error where
    c: "classify rt (set_defaults err) (copy_error (set_defaults err)) = Inr error"
    and r: "json r =
       [(''status'', True, js_get error ''status''),
        (''error'', True, Obj error),
        (''message'', True, js_get error ''message''),
        (''stack'', True, (if development rt then js_get error ''stack'' else Obj []))]"
    by (rule error_entry)
  from r assms(1) show "stackTrace r = Obj []"
    by (simp add: stackTrace_def js_get_def)
  assume "''stack'' \<notin> set (keys err)"
  with keys_set_defaults [of err] have "''stack'' \<notin> set (keys (set_defaults err))"
    by auto
  with keys_copy_error [of "set_defaults err"]
  have "''stack'' \<notin> set (keys (copy_error (set_defaults err)))"
    by auto
  with classify_result [OF c] have "''stack'' \<notin> set (keys error)"
    by (auto simp: keys_new_AppError)
  with r show "\<exists>error. errorDetail r = Obj error \<and> ''stack'' \<notin> set (keys error)"
    by (simp add: errorDetail_def js_get_def)
qed

lemma error_populated:
  assumes "written (errorHandler rt console err) = Inr r"
  shows "\<exists>error. errorDetail r = Obj error"
  using assms by (rule error_entry) (simp add: errorDetail_def js_get_def)





text \<open>
  A failure that matches exactly one kind, and carries its violations when that kind is
  the validation failure, is answered with the entry of the table for the kind.
\<close>

lemma classified_kind_table:
  assumes "matching err = [k]"
    and "k = FieldValidation \<longrightarrow> violations err \<noteq> None"
  shows "reply (errorHandler rt console err) =
           Some (Num (entry_status k), Str ''fail'', Str (entry_message k err))"
  using reply_classified [of err rt console] assms by simp

subsection \<open>The failure records of the examples\<close>

lemma matching_cast_and_duplicate: "matching cast_and_duplicate = [CastMismatch, DuplicateKey]"
  by (simp add: matching_unfold cast_and_duplicate_def get_err_def)

lemma matching_token_and_duplicate:
  "matching token_and_duplicate = [DuplicateKey, MalformedCredential]"
  by (simp add: matching_unfold token_and_duplicate_def get_err_def)

lemma matching_validation_failure: "matching validation_failure = [FieldValidation]"
  by (simp add: matching_unfold validation_failure_def get_err_def)

lemma violations_validation_failure:
  "violations validation_failure = Some [''Invalid email format'', ''Name is required'']"
  by (simp add: violations_def validation_failure_def get_err_def spread_def js_get_def)

lemma matching_database_failure: "matching database_failure = []"
  by (simp add: matching_unfold database_failure_def get_err_def)

lemma matching_duplicate_failure: "matching duplicate_failure = [DuplicateKey]"
  by (simp add: matching_unfold duplicate_failure_def get_err_def)



lemma matching_validation_and_duplicate:
  "matching (assign validation_failure ''code'' (Num 11000)) = [DuplicateKey, FieldValidation]"
  by (simp add: matching_unfold get_err_assign) (simp add: validation_failure_def get_err_def)

lemma violations_validation_and_duplicate:
  "violations (assign validation_failure ''code'' (Num 11000)) =
     Some [''Invalid email format'', ''Name is required'']"
  using violations_validation_failure by (simp add: violations_def get_err_assign)

lemma production_not_development: "\<not> development production"
  by (simp add: development_def production_def)

lemma written_database_failure:
  "written (errorHandler production [] database_failure) = Inr
     \<lparr>status_code = Num 500,
      json =
        [(''status'', True, Undefined),
         (''error'', True, Obj
            [(''statusCode'', True, Num 500),
             (''message'', True, Str ''connect ECONNREFUSED 10.0.0.5:27017'')]),
         (''message'', True, Str ''connect ECONNREFUSED 10.0.0.5:27017''),
         (''stack'', True, Obj [])]\<rparr>"
  by (simp add: errorHandler_def set_defaults_def copy_error_def classify_def Let_def
      development_def production_def database_failure_def get_err_def js_get_def js_or_def
      spread_def)

section \<open>The claims about the error handler\<close>

text \<open>
  C1, as amended. In a build whose mode flag is not \<open>development\<close>, every response the
  handler writes has the empty object as its \<open>stack\<close> entry, and the object in its
  \<open>error\<close> entry has no enumerable \<open>stack\<close> property when the failure has none (on
  an \<open>Error\<close> instance \<open>stack\<close> is not enumerable). For a failure whose last matching
  kind is the cast mismatch, the duplicate key, the malformed or the expired credential,
  the response is the same for every failure of that kind; for a validation failure it is
  the same for every failure with the same \<open>errors\<close>: in both cases it carries nothing
  else of the record, neither its raw message nor its stack. In every build mode the
  \<open>error\<close> entry is populated, with an object. For a failure of no classified kind the
  message is the raw message of the failure (the default when that is empty), and the
  \<open>error\<close> entry is the copy of the failure, which holds the same message.
\<close>

theorem production_body_of_failure:
  "(\<not> development rt \<and> written (errorHandler rt console err) = Inr r \<longrightarrow>
      stackTrace r = Obj [] \<and>
      (''stack'' \<notin> set (keys err) \<longrightarrow>
         (\<exists>error. errorDetail r = Obj error \<and> ''stack'' \<notin> set (keys error)))) \<and>
   (matching err \<noteq> [] \<and> matching err' \<noteq> [] \<and> last (matching err) = last (matching err') \<and>
    last (matching err) \<noteq> FieldValidation \<longrightarrow>
      written (errorHandler rt console err) = written (errorHandler rt console' err')) \<and>
   (matches FieldValidation err \<and> matches FieldValidation err' \<and>
    get_err err ''errors'' = get_err err' ''errors'' \<longrightarrow>
      written (errorHandler rt console err) = written (errorHandler rt console' err')) \<and>
   (written (errorHandler rt console err) = Inr r \<longrightarrow> (\<exists>error. errorDetail r = Obj error)) \<and>
   (matching err = [] \<longrightarrow>
      reply (errorHandler rt console err) =
        Some (js_or (get_err err ''statusCode'') (Num 500),
              js_get (copy_error (set_defaults err)) ''status'',
              js_or (get_err err ''message'') (Str ''Internal Server Error'')) \<and>
      (\<exists>r. written (errorHandler rt console err) = Inr r \<and>
           errorDetail r = Obj (copy_error (set_defaults err)) \<and>
           js_get (copy_error (set_defaults err)) ''message'' =
             js_or (get_err err ''message'') (Str ''Internal Server Error'')))"
proof (intro conjI impI)
  assume "\<not> development rt \<and> written (errorHandler rt console err) = Inr r"
  then show "stackTrace r = Obj []"
    using production_stack(1) by blast
next
  assume "\<not> development rt \<and> written (errorHandler rt console err) = Inr r"
    and "''stack'' \<notin> set (keys err)"
  then show "\<exists>error. errorDetail r = Obj error \<and> ''stack'' \<notin> set (keys error)"
    using production_stack(2) by blast
next
  assume "matching err \<noteq> [] \<and> matching err' \<noteq> [] \<and> last (matching err) = last (matching err') \<and>
    last (matching err) \<noteq> FieldValidation"
  then show "written (errorHandler rt console err) = written (errorHandler rt console' err')"
    by (elim conjE) (rule written_same_kind)
next
  assume "matches FieldValidation err \<and> matches FieldValidation err' \<and>
    get_err err ''errors'' = get_err err' ''errors''"
  then show "written (errorHandler rt console err) = written (errorHandler rt console' err')"
    by (elim conjE) (rule written_same_errors)
next
  assume "written (errorHandler rt console err) = Inr r"
  then show "\<exists>error. errorDetail r = Obj error"
    by (rule error_populated)
next
  assume "matching err = []"
  then show "reply (errorHandler rt console err) =
        Some (js_or (get_err err ''statusCode'') (Num 500),
              js_get (copy_error (set_defaults err)) ''status'',
              js_or (get_err err ''message'') (Str ''Internal Server Error''))"
    by (simp add: reply_def written_unmatched js_get_def)
next
  assume m: "matching err = []"
  have "js_get (copy_error (set_defaults err)) ''message''
      = js_or (get_err err ''message'') (Str ''Internal Server Error'')"
    by (simp add: copy_error_def Let_def js_get_assign get_err_set_defaults)
  with m show "\<exists>r. written (errorHandler rt console err) = Inr r \<and>
           errorDetail r = Obj (copy_error (set_defaults err)) \<and>
           js_get (copy_error (set_defaults err)) ''message'' =
             js_or (get_err err ''message'') (Str ''Internal Server Error'')"
    by (simp add: written_unmatched errorDetail_def js_get_def)
qed

theorem production_body_of_failure_witness:
  "\<not> development production \<and>
   ''stack'' \<notin> set (keys database_failure) \<and>
   (\<exists>r. written (errorHandler production [] database_failure) = Inr r \<and>
      stackTrace r = Obj [] \<and>
      errorDetail r = Obj
        [(''statusCode'', True, Num 500),
         (''message'', True, Str ''connect ECONNREFUSED 10.0.0.5:27017'')]) \<and>
   last (matching cast_and_duplicate) = last (matching duplicate_failure) \<and>
   written (errorHandler production [] cast_and_duplicate) =
     written (errorHandler production [] duplicate_failure) \<and>
   written (errorHandler production [] validation_failure) =
     written (errorHandler production [] (assign validation_failure ''message'' (Str ''other''))) \<and>
   reply (errorHandler production [] database_failure) =
     Some (Num 500, Undefined, Str ''connect ECONNREFUSED 10.0.0.5:27017'')"
proof -
  note t = production_body_of_failure
  have k: "''stack'' \<notin> set (keys database_failure)"
    by (simp add: keys_def spread_def database_failure_def)
  have 1: "\<exists>r. written (errorHandler production [] database_failure) = Inr r \<and>
      stackTrace r = Obj [] \<and>
      errorDetail r = Obj
        [(''statusCode'', True, Num 500),
         (''message'', True, Str ''connect ECONNREFUSED 10.0.0.5:27017'')]"
    using t [where rt = production and console = "[]" and err = database_failure
        and err' = database_failure and console' = "[]"]
      production_not_development written_database_failure k
    by (simp add: errorDetail_def js_get_def)
  have 2: "written (errorHandler production [] cast_and_duplicate) =
     written (errorHandler production [] duplicate_failure)"
    using t [where rt = production and console = "[]" and err = cast_and_duplicate
        and err' = duplicate_failure and console' = "[]"]
    by (simp add: matching_cast_and_duplicate matching_duplicate_failure)
  have 3: "written (errorHandler production [] validation_failure) =
     written (errorHandler production [] (assign validation_failure ''message'' (Str ''other'')))"
    using t [where rt = production and console = "[]" and err = validation_failure
        and err' = "assign validation_failure ''message'' (Str ''other'')" and console' = "[]"]
    by (simp add: get_err_assign) (simp add: validation_failure_def get_err_def)
  have 4: "reply (errorHandler production [] database_failure) =
     Some (Num 500, Undefined, Str ''connect ECONNREFUSED 10.0.0.5:27017'')"
    using t [where rt = production and console = "[]" and err = database_failure
        and err' = database_failure and console' = "[]"]
    by (simp add: matching_database_failure)
      (simp add: database_failure_def get_err_def js_or_def copy_error_def set_defaults_def
        spread_def js_get_def Let_def)
  from production_not_development k 1 2 3 4 show ?thesis
    by (simp add: matching_cast_and_duplicate matching_duplicate_failure)
qed

text \<open>
  C1 as stated fails: in production, for a failure of no classified kind, the body carries
  the failure's raw message, in \<open>message\<close> and again in the populated \<open>error\<close> entry.
\<close>

theorem production_detail_counterexample:
  "\<not> development production \<and>
   get_err database_failure ''message'' = Str ''connect ECONNREFUSED 10.0.0.5:27017'' \<and>
   written (errorHandler production [] database_failure) = Inr
     \<lparr>status_code = Num 500,
      json =
        [(''status'', True, Undefined),
         (''error'', True, Obj
            [(''statusCode'', True, Num 500),
             (''message'', True, Str ''connect ECONNREFUSED 10.0.0.5:27017'')]),
         (''message'', True, Str ''connect ECONNREFUSED 10.0.0.5:27017''),
         (''stack'', True, Obj [])]\<rparr>"
  by (simp add: production_not_development written_database_failure)
    (simp add: database_failure_def get_err_def)

text \<open>
  C2, as amended. The five rules are independent \<open>if\<close> statements, so the last rule that
  matches decides: for every failure that matches at least one rule, and so for every one
  that matches more than one, the status code and the message of the response are those
  of the latest matching rule in the order of section 4.1. Where the validation rule is
  among the matching ones (it is then the latest), this is stated for the failures that
  carry their collection of violations.
\<close>

theorem last_match_wins:
  assumes "matching err \<noteq> []"
    and "FieldValidation \<in> set (matching err) \<longrightarrow> violations err \<noteq> None"
  shows "reply (errorHandler rt console err) =
           Some (Num (entry_status (last (matching err))), Str ''fail'',
                 Str (entry_message (last (matching err)) err))"
  using assms by (rule reply_classified)

theorem last_match_wins_witness:
  "matching cast_and_duplicate = [CastMismatch, DuplicateKey] \<and>
   reply (errorHandler production [] cast_and_duplicate) =
     Some (Num 400, Str ''fail'', Str ''Duplicate field value entered'') \<and>
   matching (assign validation_failure ''code'' (Num 11000)) = [DuplicateKey, FieldValidation] \<and>
   violations (assign validation_failure ''code'' (Num 11000)) =
     Some [''Invalid email format'', ''Name is required''] \<and>
   reply (errorHandler production [] (assign validation_failure ''code'' (Num 11000))) =
     Some (Num 400, Str ''fail'', Str ''Invalid email format, Name is required'')"
  using last_match_wins [of cast_and_duplicate production "[]"]
    last_match_wins [of "assign validation_failure ''code'' (Num 11000)" production "[]"]
  by (simp add: matching_cast_and_duplicate matching_validation_and_duplicate
      violations_validation_and_duplicate)

text \<open>
  C2 as stated fails: a cast error with the duplicate-key code is answered with the
  message of the duplicate-key rule, not with that of the cast rule, which comes first;
  a malformed credential with the duplicate-key code is answered with 401, not with the
  400 of the duplicate-key rule, which comes first.
\<close>

theorem first_match_counterexample:
  "matching cast_and_duplicate = [CastMismatch, DuplicateKey] \<and>
   reply (errorHandler production [] cast_and_duplicate) =
     Some (Num 400, Str ''fail'', Str ''Duplicate field value entered'') \<and>
   entry_message (hd (matching cast_and_duplicate)) cast_and_duplicate = ''Invalid ID format'' \<and>
   matching token_and_duplicate = [DuplicateKey, MalformedCredential] \<and>
   reply (errorHandler production [] token_and_duplicate) =
     Some (Num 401, Str ''fail'', Str ''Invalid token'') \<and>
   entry_status (hd (matching token_and_duplicate)) = 400 \<and>
   entry_message (hd (matching token_and_duplicate)) token_and_duplicate =
     ''Duplicate field value entered''"
  using reply_classified [of cast_and_duplicate production "[]"]
    reply_classified [of token_and_duplicate production "[]"]
  by (simp add: matching_cast_and_duplicate matching_token_and_duplicate)

text \<open>
  C3, at the input where the handler departs from it: a failure named
  \<open>ValidationError\<close> that has no \<open>errors\<close> collection. It matches exactly one kind,
  the field validation error; line 58 throws a \<open>TypeError\<close> on it and the handler
  writes no response, where the claim has the status code 400 and the joined messages.
\<close>

theorem validation_without_collection_crashes:
  "matching schema_failure = [FieldValidation] \<and>
   written (errorHandler production [] schema_failure) =
     Inl (TypeError ''Cannot convert undefined or null to object'') \<and>
   reply (errorHandler production [] schema_failure) = None"
proof -
  have n: "get_err schema_failure ''name'' = Str ''ValidationError''"
    and e: "get_err schema_failure ''errors'' = Undefined"
    and c: "get_err schema_failure ''code'' = Undefined"
    by (simp_all add: schema_failure_def get_err_def)
  from n c have "matching schema_failure = [FieldValidation]"
    by (simp add: matching_unfold)
  moreover from n e have "written (errorHandler production [] schema_failure) =
     Inl (TypeError ''Cannot convert undefined or null to object'')"
    by (rule validation_without_errors_throws)
  ultimately show ?thesis by (simp add: reply_def)
qed

text \<open>
  C4, at the input where the handler departs from it: \<open>new Error()\<close>, a failure of no
  classified kind with no status code and no message. The response has the status code
  500 and the message \<open>Internal Server Error\<close>, and no \<open>status\<close>: the entry is
  \<open>undefined\<close>, where the claim has \<open>error\<close>.
\<close>

theorem unclassified_status_missing:
  "matching bare_failure = [] \<and>
   reply (errorHandler production [] bare_failure) =
     Some (Num 500, Undefined, Str ''Internal Server Error'')"
  by (simp add: matching_unfold reply_def errorHandler_def set_defaults_def copy_error_def
      classify_def Let_def development_def production_def bare_failure_def get_err_def js_get_def
      js_or_def spread_def)

text \<open>
  C8, as amended. The handler writes two properties of the failure it is given and no
  other: \<open>statusCode\<close> becomes 500 when it was missing or falsy, \<open>message\<close> becomes
  \<open>Internal Server Error\<close> when it was missing or empty; every other property reads as
  before, and a failure that has both is left exactly as it was.
\<close>

theorem handler_writes_defaults_only:
  "get_err (failure_after (errorHandler rt console err)) k =
     (if k = ''statusCode'' then js_or (get_err err ''statusCode'') (Num 500)
      else if k = ''message'' then js_or (get_err err ''message'') (Str ''Internal Server Error'')
      else get_err err k) \<and>
   (truthy (get_err err ''statusCode'') \<and> truthy (get_err err ''message'') \<longrightarrow>
      failure_after (errorHandler rt console err) = err)"
  by (simp add: failure_after_errorHandler get_err_set_defaults set_defaults_unchanged)

theorem handler_writes_defaults_only_witness:
  "truthy (get_err (set_defaults database_failure) ''statusCode'') \<and>
   truthy (get_err (set_defaults database_failure) ''message'') \<and>
   failure_after (errorHandler production [] (set_defaults database_failure)) =
     set_defaults database_failure \<and>
   get_err (failure_after (errorHandler production [] database_failure)) ''stack'' =
     Str ''Error: connect ECONNREFUSED 10.0.0.5:27017 at connect (db.js:12:9)''"
  using handler_writes_defaults_only [of production "[]" "set_defaults database_failure" "''stack''"]
    handler_writes_defaults_only [of production "[]" database_failure "''stack''"]
  by (simp add: get_err_set_defaults truthy_js_or) (simp add: database_failure_def get_err_def)

text \<open>
  C8 as stated fails: a failure without a status code has the status code 500 after the
  handler has run.
\<close>

theorem failure_mutated_counterexample:
  "get_err database_failure ''statusCode'' = Undefined \<and>
   get_err (failure_after (errorHandler production [] database_failure)) ''statusCode'' = Num 500 \<and>
   failure_after (errorHandler production [] database_failure) \<noteq> database_failure"
  by (simp add: failure_after_errorHandler set_defaults_def Let_def database_failure_def
      get_err_def js_or_def)




section \<open>The claims about the validator and the route handlers\<close>

lemma validate_name_length_rule:
  "validate [name_length_rule] recorded short_name_request = Responded
     \<lparr>status_code = Num 422,
      json =
        [(''success'', True, Bool False),
         (''message'', True, Str ''Validation failed''),
         (''errors'', True, Arr
            [Obj [(''field'', True, Str ''name''),
                  (''message'', True, Str ''Name must be between 2 and 50 characters long'')]])]\<rparr>"
  by (simp add: validate_def name_length_rule_def short_name_request_def js_get_def Let_def)

text \<open>
  C5, as amended. When no rule run rejects and the violation list is not empty, the
  validator itself writes the response, with the status code 422 and the list; with an
  empty list it calls \<open>next()\<close>; it hands a failure to the error handler only when a rule
  run rejects. The route handler \<open>simulateError\<close> catches its failure and writes the
  response itself, from the \<open>statusCode\<close> and the \<open>message\<close> of the object it caught.
\<close>

theorem failures_answered_in_place:
  "(run_all validations req = Inr req' \<and> validationResult req' \<noteq> [] \<longrightarrow>
      validate validations validationResult req = Responded
        \<lparr>status_code = Num 422,
         json =
           [(''success'', True, Bool False),
            (''message'', True, Str ''Validation failed''),
            (''errors'', True, Arr (validationResult req'))]\<rparr>) \<and>
   (run_all validations req = Inr req' \<and> validationResult req' = [] \<longrightarrow>
      validate validations validationResult req = Next) \<and>
   (run_all validations req = Inl ex \<longrightarrow>
      validate validations validationResult req = NextError ex) \<and>
   (caught createError errors = Obj ps \<longrightarrow>
      simulateError createError errors = Inr
        \<lparr>status_code = js_or (js_get ps ''statusCode'') (Num 500),
         json =
           [(''status'', True, Str ''error''),
            (''message'', True, js_or (js_get ps ''message'') (Str ''Internal server error''))]\<rparr>)"
  by (simp add: validate_def simulateError_def Let_def)

theorem failures_answered_in_place_witness:
  "validate [name_length_rule] recorded short_name_request = Responded
     \<lparr>status_code = Num 422,
      json =
        [(''success'', True, Bool False),
         (''message'', True, Str ''Validation failed''),
         (''errors'', True, Arr
            [Obj [(''field'', True, Str ''name''),
                  (''message'', True, Str ''Name must be between 2 and 50 characters long'')]])]\<rparr> \<and>
   validate [name_length_rule] recorded good_name_request = Next \<and>
   validate [name_length_rule, rejecting_rule] recorded short_name_request =
     NextError (Error ''connection lost'') \<and>
   simulateError plain_createError [] = Inr
     \<lparr>status_code = Num 500,
      json =
        [(''status'', True, Str ''error''),
         (''message'', True, Str ''Simulated server error for testing purposes'')]\<rparr>"
proof -
  let ?violation = "Obj [(''field'', True, Str ''name''),
    (''message'', True, Str ''Name must be between 2 and 50 characters long'')]"
  have short: "run_all [name_length_rule] short_name_request
                 = Inr (short_name_request\<lparr>recorded := [?violation]\<rparr>)"
    by (simp add: name_length_rule_def short_name_request_def js_get_def Let_def)
  have good: "run_all [name_length_rule] good_name_request = Inr good_name_request"
    by (simp add: name_length_rule_def good_name_request_def js_get_def Let_def)
  have rejected: "run_all [name_length_rule, rejecting_rule] short_name_request
                    = Inl (Error ''connection lost'')"
    by (simp add: name_length_rule_def rejecting_rule_def short_name_request_def js_get_def
        Let_def)
  have thrown: "caught plain_createError []
                  = Obj [(''statusCode'', True, Num 500),
                         (''message'', True, Str ''Simulated server error for testing purposes'')]"
    by (simp add: caught_def plain_createError_def)
  from failures_answered_in_place
    [of "[name_length_rule]" short_name_request "short_name_request\<lparr>recorded := [?violation]\<rparr>"
      recorded]
    short
  have 1: "validate [name_length_rule] recorded short_name_request = Responded
     \<lparr>status_code = Num 422,
      json =
        [(''success'', True, Bool False),
         (''message'', True, Str ''Validation failed''),
         (''errors'', True, Arr [?violation])]\<rparr>"
    by simp
  from failures_answered_in_place
    [of "[name_length_rule]" good_name_request good_name_request recorded] good
  have 2: "validate [name_length_rule] recorded good_name_request = Next"
    by (simp add: good_name_request_def)
  from failures_answered_in_place
    [of "[name_length_rule, rejecting_rule]" short_name_request _ _ "Error ''connection lost''"]
    rejected
  have 3: "validate [name_length_rule, rejecting_rule] recorded short_name_request
             = NextError (Error ''connection lost'')"
    by simp
  from failures_answered_in_place
    [where validations = "[name_length_rule]" and validationResult = recorded
       and createError = plain_createError and errors = "[]"
       and ps = "[(''statusCode'', True, Num 500),
                  (''message'', True, Str ''Simulated server error for testing purposes'')]"]
    thrown
  have 4: "simulateError plain_createError [] = Inr
     \<lparr>status_code = Num 500,
      json =
        [(''status'', True, Str ''error''),
         (''message'', True, Str ''Simulated server error for testing purposes'')]\<rparr>"
    by (simp add: js_get_def js_or_def)
  from 1 2 3 4 show ?thesis by simp
qed

text \<open>
  C5 as stated fails: for the request \<open>{name: "A"}\<close> and the rule on the length of the
  name, the validator does not pass the failure on; it answers with 422 itself.
\<close>

theorem validator_responds_counterexample:
  "validate [name_length_rule] recorded short_name_request = Responded
     \<lparr>status_code = Num 422,
      json =
        [(''success'', True, Bool False),
         (''message'', True, Str ''Validation failed''),
         (''errors'', True, Arr
            [Obj [(''field'', True, Str ''name''),
                  (''message'', True, Str ''Name must be between 2 and 50 characters long'')]])]\<rparr> \<and>
   simulateError plain_createError [] = Inr
     \<lparr>status_code = Num 500,
      json =
        [(''status'', True, Str ''error''),
         (''message'', True, Str ''Simulated server error for testing purposes'')]\<rparr>"
  by (simp add: validate_name_length_rule)
    (simp add: simulateError_def caught_def plain_createError_def js_get_def js_or_def Let_def)

section \<open>The claim about the rules\<close>

lemma fails_recorded: "fails (req\<lparr>recorded := vs\<rparr>) r = fails req r"
  by (simp add: fails_def)

lemma run_rule_fails:
  "fails req r \<Longrightarrow> run_rule r req = Inr (req\<lparr>recorded := recorded req @ [violation r]\<rparr>)"
  and run_rule_passes: "\<not> fails req r \<Longrightarrow> run_rule r req = Inr req"
  by (simp_all add: run_rule_def)

lemma run_all_rules:
  "run_all (map run_rule rules) req =
     Inr (req\<lparr>recorded := recorded req @ map violation (filter (fails req) rules)\<rparr>)"
proof (induction rules arbitrary: req)
  case Nil
  then show ?case by simp
next
  case (Cons r rules)
  show ?case
  proof (cases "fails req r")
    case True
    then show ?thesis
      by (simp add: run_rule_fails Cons.IH fails_recorded)
  next
    case False
    then show ?thesis
      by (simp add: run_rule_passes Cons.IH)
  qed
qed

text \<open>
  C6. For every set of rules run on a request that has no violation recorded yet, every
  rule is run, whatever the earlier ones found, and the check of the result comes after
  them: the violation list holds exactly one entry for each failing rule, in the order in
  which the rules are declared; when no rule fails it is empty and the validator calls
  \<open>next()\<close>; and it is not empty exactly when the validator does not.
\<close>

theorem all_rules_run_and_collected:
  assumes "recorded req = []"
  shows "(\<exists>req'. run_all (map run_rule rules) req = Inr req' \<and> body req' = body req \<and>
            recorded req' = map violation (filter (fails req) rules) \<and>
            length (recorded req') = length (filter (fails req) rules)) \<and>
         (filter (fails req) rules = [] \<longrightarrow>
            validate (map run_rule rules) recorded req = Next) \<and>
         (filter (fails req) rules \<noteq> [] \<longrightarrow>
            validate (map run_rule rules) recorded req = Responded
              \<lparr>status_code = Num 422,
               json =
                 [(''success'', True, Bool False),
                  (''message'', True, Str ''Validation failed''),
                  (''errors'', True, Arr (map violation (filter (fails req) rules)))]\<rparr>) \<and>
         (map violation (filter (fails req) rules) \<noteq> [] \<longleftrightarrow>
            validate (map run_rule rules) recorded req \<noteq> Next)"
  using assms by (simp add: run_all_rules validate_def Let_def)

theorem all_rules_run_and_collected_witness:
  "recorded signup_request = [] \<and>
   filter (fails signup_request) [name_rule, password_rule] = [name_rule, password_rule] \<and>
   validate (map run_rule [name_rule, password_rule]) recorded signup_request = Responded
     \<lparr>status_code = Num 422,
      json =
        [(''success'', True, Bool False),
         (''message'', True, Str ''Validation failed''),
         (''errors'', True, Arr
            [Obj [(''field'', True, Str ''name''),
                  (''message'', True, Str ''Name must be between 2 and 50 characters long'')],
             Obj [(''field'', True, Str ''password''),
                  (''message'', True, Str ''Password must be at least 8 characters long'')]])]\<rparr> \<and>
   filter (fails good_name_request) [name_rule] = [] \<and>
   validate (map run_rule [name_rule]) recorded good_name_request = Next"
proof -
  have n: "fails signup_request name_rule" and p: "fails signup_request password_rule"
    and g: "\<not> fails good_name_request name_rule"
    by (simp_all add: fails_def signup_request_def good_name_request_def name_rule_def
        password_rule_def js_get_def)
  have f: "filter (fails signup_request) [name_rule, password_rule] = [name_rule, password_rule]"
    and f': "filter (fails good_name_request) [name_rule] = []"
    using n p g by simp_all
  have e: "recorded signup_request = []" "recorded good_name_request = []"
    by (simp_all add: signup_request_def good_name_request_def)
  have v: "violation name_rule =
      Obj [(''field'', True, Str ''name''),
           (''message'', True, Str ''Name must be between 2 and 50 characters long'')]"
    "violation password_rule =
      Obj [(''field'', True, Str ''password''),
           (''message'', True, Str ''Password must be at least 8 characters long'')]"
    by (simp_all add: violation_def name_rule_def password_rule_def)
  from all_rules_run_and_collected [OF e(1), of "[name_rule, password_rule]"]
  have "filter (fails signup_request) [name_rule, password_rule] \<noteq> [] \<longrightarrow>
      validate (map run_rule [name_rule, password_rule]) recorded signup_request = Responded
        \<lparr>status_code = Num 422,
         json =
           [(''success'', True, Bool False),
            (''message'', True, Str ''Validation failed''),
            (''errors'', True,
               Arr (map violation (filter (fails signup_request) [name_rule, password_rule])))]\<rparr>"
    by blast
  then have 1: "validate (map run_rule [name_rule, password_rule]) recorded signup_request =
      Responded
        \<lparr>status_code = Num 422,
         json =
           [(''success'', True, Bool False),
            (''message'', True, Str ''Validation failed''),
            (''errors'', True, Arr [violation name_rule, violation password_rule])]\<rparr>"
    unfolding f by simp
  from all_rules_run_and_collected [OF e(2), of "[name_rule]"]
  have "filter (fails good_name_request) [name_rule] = [] \<longrightarrow>
      validate (map run_rule [name_rule]) recorded good_name_request = Next"
    by blast
  then have 2: "validate (map run_rule [name_rule]) recorded good_name_request = Next"
    unfolding f' by simp
  from e(1) f f' 1 2 show ?thesis
    unfolding v by simp
qed

section \<open>The claims about the configuration manager\<close>

lemma isLoaded_loadEnvironmentConfig:
  "loadEnvironmentConfig h cm proc = Inr cm1 \<Longrightarrow> isLoaded cm1 = isLoaded cm"
  by (auto simp: loadEnvironmentConfig_def Let_def split: sum.splits if_splits)



lemma loadConfig_cases:
  "loadConfig h cm proc = (cm', proc', r) \<Longrightarrow>
     (r = Inr () \<and> isLoaded cm') \<or> (isl r \<and> isLoaded cm' = isLoaded cm)"
  by (auto simp: loadConfig_def isLoaded_loadEnvironmentConfig split: sum.splits)

lemma startup_good_settings:
  "startup (host_with good_settings) production_process =
     (\<lparr>config =
         [(''port'', True, Num 8080),
          (''databaseUrl'', True, Str ''mongodb://db.internal:27017/app''),
          (''jwtSecret'', True, Str ''s3cret''),
          (''environment'', True, Str ''production'')],
       isLoaded = True\<rparr>,
      production_process)"
  by (simp add: startup_def loadConfig_def loadEnvConfig_def loadEnvironmentConfig_def
      validateConfig_def host_with_def production_process_def good_settings_def
      new_ConfigManager_def environment_name_def no_file_def spread_def js_get_def required_def
      js_less_def js_greater_def startsWith_def Let_def)







text \<open>
  C10. On a manager that is not loaded every accessor throws; on a loaded one \<open>get\<close> and
  \<open>getAll\<close> and the three group accessors return a value. A new manager is not loaded,
  and \<open>loadConfig\<close> on it marks it as loaded exactly when it returns without an
  exception.
\<close>

theorem accessors_need_loaded_configuration:
  "(\<not> isLoaded cm \<longrightarrow>
      get cm key d = Inl not_loaded \<and> getAll cm = Inl not_loaded \<and>
      getDatabaseConfig cm = Inl not_loaded \<and> getSecurityConfig cm = Inl not_loaded \<and>
      getServerConfig cm = Inl not_loaded) \<and>
   (isLoaded cm \<longrightarrow>
      \<not> isl (get cm key d) \<and> \<not> isl (getAll cm) \<and> \<not> isl (getDatabaseConfig cm) \<and>
      \<not> isl (getSecurityConfig cm) \<and> \<not> isl (getServerConfig cm)) \<and>
   \<not> isLoaded new_ConfigManager \<and>
   (loadConfig h new_ConfigManager proc = (cm', proc', r) \<longrightarrow>
      (isLoaded cm' \<longleftrightarrow> r = Inr ()) \<and> (\<not> isLoaded cm' \<longleftrightarrow> isl r))"
proof -
  have "isLoaded cm' \<longleftrightarrow> r = Inr ()" and "\<not> isLoaded cm' \<longleftrightarrow> isl r"
    if "loadConfig h new_ConfigManager proc = (cm', proc', r)"
    using loadConfig_cases [OF that] by (auto simp: new_ConfigManager_def)
  then show ?thesis
    by (simp add: get_def getAll_def getDatabaseConfig_def getSecurityConfig_def
        getServerConfig_def new_ConfigManager_def)
qed

theorem accessors_need_loaded_configuration_witness:
  "\<not> isLoaded new_ConfigManager \<and>
   get new_ConfigManager ''port'' Undefined = Inl not_loaded \<and>
   getServerConfig new_ConfigManager = Inl not_loaded \<and>
   isLoaded (fst (startup (host_with good_settings) production_process)) \<and>
   \<not> isl (get (fst (startup (host_with good_settings) production_process)) ''port'' Undefined) \<and>
   \<not> isl (getServerConfig (fst (startup (host_with good_settings) production_process)))"
  using accessors_need_loaded_configuration
    [of new_ConfigManager "''port''" Undefined "host_with good_settings" production_process]
    accessors_need_loaded_configuration
    [of "fst (startup (host_with good_settings) production_process)" "''port''" Undefined
      "host_with good_settings" production_process]
  by (simp add: startup_good_settings)

end
